theory Spec2Isabelle
  imports Main "HOL-Library.AList" "HOL-Library.Sublist"
begin

section \<open>JavaScript values\<close>

text \<open>
  The labeling tool exists in two variants: \<^verbatim>\<open>src/App.tsx\<close> and
  \<^verbatim>\<open>src/unnamed/part_000\<close>. Functions that differ between the two are embedded
  twice; the embedding of the second file carries the suffix \<open>_p0\<close>. Functions
  that are textually the same in both files are embedded once.

  Everything the program reads from a file or from pasted text has the TypeScript
  type \<^verbatim>\<open>any\<close>, so the embedding works on run-time values. Numbers are modelled
  as integers. Strings are lists of \<^typ>\<open>char\<close>, read as code units below 256.
  An object is the list of its own properties in insertion order.
\<close>

datatype jsval =
    JUndefined
  | JNull
  | JBool bool
  | JNum int
  | JStr string
  | JArr "jsval list"
  | JObj "(string \<times> jsval) list"

text \<open>Truthiness, as tested by \<^verbatim>\<open>if (v)\<close>, \<^verbatim>\<open>!v\<close>, \<^verbatim>\<open>a && b\<close> and \<^verbatim>\<open>a || b\<close>.\<close>

fun truthy :: "jsval \<Rightarrow> bool" where
  "truthy JUndefined = False"
| "truthy JNull = False"
| "truthy (JBool b) = b"
| "truthy (JNum n) = (n \<noteq> 0)"
| "truthy (JStr s) = (s \<noteq> [])"
| "truthy (JArr xs) = True"
| "truthy (JObj kvs) = True"

definition js_or :: "jsval \<Rightarrow> jsval \<Rightarrow> jsval" where
  "js_or a b = (if truthy a then a else b)"

text \<open>
  A property read \<^verbatim>\<open>v.k\<close>. Reading from \<^verbatim>\<open>undefined\<close> or \<^verbatim>\<open>null\<close> throws a
  TypeError, so every read is guarded by \<open>nullish\<close>; a missing property reads as
  \<^verbatim>\<open>undefined\<close>. The program only reads the keys \<^verbatim>\<open>tag\<close>, \<^verbatim>\<open>title1\<close>, \<^verbatim>\<open>title2\<close>,
  \<^verbatim>\<open>content\<close>, \<^verbatim>\<open>short_point\<close>, \<^verbatim>\<open>tags\<close>, \<^verbatim>\<open>image_url\<close>, \<^verbatim>\<open>image_id\<close>,
  \<^verbatim>\<open>hotel_id\<close>, \<^verbatim>\<open>hotel_name\<close>, \<^verbatim>\<open>tag name\<close> and \<^verbatim>\<open>tag_name\<close> this way, none of
  which is a built-in property of a string, number, boolean or array.
\<close>

fun nullish :: "jsval \<Rightarrow> bool" where
  "nullish JUndefined = True"
| "nullish JNull = True"
| "nullish v = False"

fun getProp :: "jsval \<Rightarrow> string \<Rightarrow> jsval" where
  "getProp (JObj kvs) k = (case map_of kvs k of None \<Rightarrow> JUndefined | Some v \<Rightarrow> v)"
| "getProp v k = JUndefined"

text \<open>Indexing a row object of the spreadsheet, \<^verbatim>\<open>row[k]\<close>.\<close>

definition cell :: "(string \<times> jsval) list \<Rightarrow> string \<Rightarrow> jsval" where
  "cell row k = (case map_of row k of None \<Rightarrow> JUndefined | Some v \<Rightarrow> v)"

text \<open>\<^verbatim>\<open>k in v\<close>: a TypeError (\<open>None\<close>) unless \<open>v\<close> is an object or an array.\<close>

fun js_in :: "string \<Rightarrow> jsval \<Rightarrow> bool option" where
  "js_in k (JObj kvs) = Some (k \<in> set (map fst kvs))"
| "js_in k (JArr xs) = Some False"
| "js_in k v = None"

fun isArray :: "jsval \<Rightarrow> bool" where
  "isArray (JArr xs) = True"
| "isArray v = False"

fun elems :: "jsval \<Rightarrow> jsval list" where
  "elems (JArr xs) = xs"
| "elems v = []"


text \<open>
  A \<^verbatim>\<open>forEach\<close> (or \<^verbatim>\<open>map\<close>) whose body updates local state and may throw: the
  loop stops at the first exception (\<open>Inl\<close>).
\<close>

fun forEach :: "('a \<Rightarrow> 's \<Rightarrow> 'e + 's) \<Rightarrow> 'a list \<Rightarrow> 's \<Rightarrow> 'e + 's" where
  "forEach f [] s = Inr s"
| "forEach f (x # xs) s = (case f x s of Inl e \<Rightarrow> Inl e | Inr s' \<Rightarrow> forEach f xs s')"

text \<open>
  \<^verbatim>\<open>Set.has\<close>, \<^verbatim>\<open>Map.has\<close> and \<^verbatim>\<open>Array.includes\<close> compare strings, numbers and
  booleans by value and objects by reference. Two objects met at different places of
  a parsed document are never the same reference, so a value that is an object or an
  array is never found among the values seen before.
\<close>

fun primitive :: "jsval \<Rightarrow> bool" where
  "primitive (JArr xs) = False"
| "primitive (JObj kvs) = False"
| "primitive v = True"

definition seen_has :: "jsval list \<Rightarrow> jsval \<Rightarrow> bool" where
  "seen_has seen v = (primitive v \<and> v \<in> set seen)"

subsection \<open>Conversion to string\<close>

function show_nat :: "nat \<Rightarrow> string" where
  "show_nat n =
     (if n < 10 then [char_of (48 + n)]
      else show_nat (n div 10) @ [char_of (48 + n mod 10)])"
  by pat_completeness auto
termination
  by (relation "measure (\<lambda>n. n)") auto

declare show_nat.simps [simp del]

definition show_int :: "int \<Rightarrow> string" where
  "show_int i = (if i < 0 then CHR ''-'' # show_nat (nat (- i)) else show_nat (nat i))"

fun join_with :: "string \<Rightarrow> string list \<Rightarrow> string" where
  "join_with sep [] = []"
| "join_with sep [x] = x"
| "join_with sep (x # y # ys) = x @ sep @ join_with sep (y # ys)"

text \<open>\<^verbatim>\<open>String(v)\<close>, which is also what a template literal \<^verbatim>\<open>`${v}`\<close> inserts.\<close>

fun js_String :: "jsval \<Rightarrow> string" where
  "js_String JUndefined = ''undefined''"
| "js_String JNull = ''null''"
| "js_String (JBool b) = (if b then ''true'' else ''false'')"
| "js_String (JNum n) = show_int n"
| "js_String (JStr s) = s"
| "js_String (JArr xs) =
     join_with '','' (map (\<lambda>x. if x = JUndefined \<or> x = JNull then [] else js_String x) xs)"
| "js_String (JObj kvs) = ''[object Object]''"

subsection \<open>Writing a value to a JSON file and reading it back\<close>

text \<open>
  \<^verbatim>\<open>JSON.stringify\<close> leaves out a property whose value is \<^verbatim>\<open>undefined\<close> and writes
  \<^verbatim>\<open>null\<close> for an \<^verbatim>\<open>undefined\<close> array element. \<open>toJSON v\<close> is the value that
  \<^verbatim>\<open>JSON.parse\<close> returns for the text \<^verbatim>\<open>JSON.stringify\<close> wrote for \<open>v\<close>.
\<close>

fun toJSON :: "jsval \<Rightarrow> jsval" where
  "toJSON (JArr xs) = JArr (map (\<lambda>x. if x = JUndefined then JNull else toJSON x) xs)"
| "toJSON (JObj kvs) =
     JObj (map (\<lambda>kv. (fst kv, toJSON (snd kv))) (filter (\<lambda>kv. snd kv \<noteq> JUndefined) kvs))"
| "toJSON v = v"

section \<open>String operations\<close>

text \<open>The white space that \<^verbatim>\<open>String.prototype.trim\<close> removes, among code units below 256.\<close>

definition is_ws :: "char \<Rightarrow> bool" where
  "is_ws c = (c \<in> set [CHR 0x09, CHR 0x0A, CHR 0x0B, CHR 0x0C, CHR 0x0D, CHR 0x20, CHR 0xA0])"

definition trim :: "string \<Rightarrow> string" where
  "trim s = rev (dropWhile is_ws (rev (dropWhile is_ws s)))"

text \<open>\<^verbatim>\<open>s.split(c)\<close> for a separator of one character: never the empty array.\<close>

fun split_on :: "char \<Rightarrow> string \<Rightarrow> string list" where
  "split_on c [] = [[]]"
| "split_on c (x # xs) =
     (if x = c then [] # split_on c xs
      else (x # hd (split_on c xs)) # tl (split_on c xs))"

text \<open>\<^verbatim>\<open>s.startsWith(p)\<close>.\<close>

fun startsWith :: "string \<Rightarrow> string \<Rightarrow> bool" where
  "startsWith s [] = True"
| "startsWith [] (p # ps) = False"
| "startsWith (x # xs) (p # ps) = (x = p \<and> startsWith xs ps)"

text \<open>
  \<^verbatim>\<open>s.replace(/pat/g, rep)\<close> for a pattern without metacharacters: every occurrence,
  found from left to right, the search resuming after the replaced text.
\<close>

fun replace_all :: "string \<Rightarrow> string \<Rightarrow> string \<Rightarrow> string" where
  "replace_all pat rep [] = []"
| "replace_all pat rep (x # xs) =
     (if pat \<noteq> [] \<and> startsWith (x # xs) pat
      then rep @ replace_all pat rep (drop (length pat - 1) xs)
      else x # replace_all pat rep xs)"

section \<open>Data model\<close>

text \<open>
  \<^verbatim>\<open>interface TagDefinition { tag: string; title1: string; title2: string; content?: string }\<close>
  and
  \<^verbatim>\<open>interface ImageItem { id: string; url: string; filename: string; tags: string[];
  hotelId?: string | number; hotelName?: string; originalImageId?: string | number }\<close>.
  The fields that the program fills from parsed data without a type test hold run-time
  values. The field \<^verbatim>\<open>id\<close> is named \<open>imgId\<close>.
\<close>

record TagDefinition =
  tag :: jsval
  title1 :: jsval
  title2 :: jsval
  content :: jsval

record ImageItem =
  imgId :: string
  url :: string
  filename :: string
  tags :: "jsval list"
  hotelId :: jsval
  hotelName :: jsval
  originalImageId :: jsval

section \<open>Tag definition text\<close>

text \<open>
  The effect of \<^verbatim>\<open>SetupScreen\<close> that runs whenever \<^verbatim>\<open>rawTagInput\<close> changes. Its
  outcome is either the list it passes to \<^verbatim>\<open>setParsedTags\<close> (\<open>Inr\<close>) or the error it
  passes to \<^verbatim>\<open>setTagParseError\<close> (\<open>Inl\<close>), in which case \<^verbatim>\<open>parsedTags\<close> keeps its
  previous value. \<^verbatim>\<open>JSON.parse\<close> is a parameter: \<open>None\<close> stands for a SyntaxError.
\<close>

datatype parse_error =
    FormatInvalid
  | RootNotListOrObject
  | RootNotList
  | NoShortPointTags
  | ProcessingError

definition sanitize :: "string \<Rightarrow> string" where
  "sanitize rawTagInput =
     replace_all ''False'' ''false''
       (replace_all ''True'' ''true''
         (replace_all ''None'' ''null''
           (replace_all [CHR 0x27] [CHR 0x22] rawTagInput)))"

type_synonym tag_acc = "TagDefinition list \<times> jsval list"

text \<open>
  The object literal \<^verbatim>\<open>{ tag: sp.tag, title1: sp.title1 || '', title2: sp.title2 || '',
  content: sp.content || '' }\<close>.
\<close>

definition definitionOf :: "jsval \<Rightarrow> TagDefinition" where
  "definitionOf sp =
     \<lparr>tag = getProp sp ''tag'',
      title1 = js_or (getProp sp ''title1'') (JStr []),
      title2 = js_or (getProp sp ''title2'') (JStr []),
      content = js_or (getProp sp ''content'') (JStr [])\<rparr>"

text \<open>
  The body of \<^verbatim>\<open>points.forEach((sp: any) => { if (sp.tag && !seenTags.has(sp.tag)) {
  definitions.push({ ... }); seenTags.add(sp.tag); } })\<close>; the state is
  \<open>(definitions, seenTags)\<close>.
\<close>

definition pushShortPoint :: "jsval \<Rightarrow> tag_acc \<Rightarrow> parse_error + tag_acc" where
  "pushShortPoint sp acc =
     (if nullish sp then Inl ProcessingError
      else if truthy (getProp sp ''tag'') \<and> \<not> seen_has (snd acc) (getProp sp ''tag'')
      then Inr (fst acc @ [definitionOf sp], snd acc @ [getProp sp ''tag''])
      else Inr acc)"

text \<open>\<^verbatim>\<open>processShortPoints\<close> of \<^verbatim>\<open>src/App.tsx\<close>: nothing happens unless \<open>points\<close> is an array.\<close>

definition processShortPoints :: "jsval \<Rightarrow> tag_acc \<Rightarrow> parse_error + tag_acc" where
  "processShortPoints points acc =
     (if \<not> isArray points then Inr acc else forEach pushShortPoint (elems points) acc)"

text \<open>
  The body of \<^verbatim>\<open>data.forEach((item: any) => { if (item.short_point &&
  Array.isArray(item.short_point)) { processShortPoints(item.short_point); } })\<close>.
\<close>

definition processItem :: "jsval \<Rightarrow> tag_acc \<Rightarrow> parse_error + tag_acc" where
  "processItem item acc =
     (if nullish item then Inl ProcessingError
      else if truthy (getProp item ''short_point'') \<and> isArray (getProp item ''short_point'')
      then processShortPoints (getProp item ''short_point'') acc
      else Inr acc)"

text \<open>
  The second \<^verbatim>\<open>try\<close> block of \<^verbatim>\<open>src/App.tsx\<close>, from the parsed \<open>data\<close> on: an array
  root, an object root (\<^verbatim>\<open>typeof data === 'object' && data !== null\<close>), or the
  root-element error; then the test of \<^verbatim>\<open>definitions.length === 0\<close>. An exception
  anywhere in the block is the error \<open>ProcessingError\<close>.
\<close>

definition finishTags :: "parse_error + tag_acc \<Rightarrow> parse_error + TagDefinition list" where
  "finishTags r =
     (case r of
        Inl e \<Rightarrow> Inl e
      | Inr acc \<Rightarrow> if fst acc = [] then Inl NoShortPointTags else Inr (fst acc))"

fun typeofObject :: "jsval \<Rightarrow> bool" where
  "typeofObject JNull = True"
| "typeofObject (JArr xs) = True"
| "typeofObject (JObj kvs) = True"
| "typeofObject v = False"

definition extractTags :: "jsval \<Rightarrow> parse_error + TagDefinition list" where
  "extractTags data =
     (if isArray data then finishTags (forEach processItem (elems data) ([], []))
      else if typeofObject data \<and> data \<noteq> JNull
      then finishTags
             (if truthy (getProp data ''short_point'') \<and> isArray (getProp data ''short_point'')
              then processShortPoints (getProp data ''short_point'') ([], [])
              else Inr ([], []))
      else Inl RootNotListOrObject)"

definition parseTagInput :: "(string \<Rightarrow> jsval option) \<Rightarrow> string \<Rightarrow> parse_error + TagDefinition list" where
  "parseTagInput JSON_parse rawTagInput =
     (if trim rawTagInput = [] then Inr []
      else
        (case JSON_parse rawTagInput of
           Some data \<Rightarrow> extractTags data
         | None \<Rightarrow>
             (case JSON_parse (sanitize rawTagInput) of
                Some data \<Rightarrow> extractTags data
              | None \<Rightarrow> Inl FormatInvalid)))"

text \<open>
  The same effect in \<^verbatim>\<open>src/unnamed/part_000\<close>: the text is sanitized before the only
  call of \<^verbatim>\<open>JSON.parse\<close>, a root that is not an array is an error, and the loop over
  \<^verbatim>\<open>item.short_point\<close> is written in place.
\<close>

definition processItem_p0 :: "jsval \<Rightarrow> tag_acc \<Rightarrow> parse_error + tag_acc" where
  "processItem_p0 item acc =
     (if nullish item then Inl ProcessingError
      else if truthy (getProp item ''short_point'') \<and> isArray (getProp item ''short_point'')
      then forEach pushShortPoint (elems (getProp item ''short_point'')) acc
      else Inr acc)"

definition extractTags_p0 :: "jsval \<Rightarrow> parse_error + TagDefinition list" where
  "extractTags_p0 data =
     (if \<not> isArray data then Inl RootNotList
      else finishTags (forEach processItem_p0 (elems data) ([], [])))"

definition parseTagInput_p0 :: "(string \<Rightarrow> jsval option) \<Rightarrow> string \<Rightarrow> parse_error + TagDefinition list" where
  "parseTagInput_p0 JSON_parse rawTagInput =
     (if trim rawTagInput = [] then Inr []
      else
        (case JSON_parse (sanitize rawTagInput) of
           None \<Rightarrow> Inl FormatInvalid
         | Some data \<Rightarrow> extractTags_p0 data))"

section \<open>Spreadsheet columns\<close>

text \<open>
  The regular expressions of \<^verbatim>\<open>handleExcelUpload\<close> are of two forms, both with the
  flag \<^verbatim>\<open>i\<close>: \<^verbatim>\<open>/^p$/i\<close> (\<open>Exact p\<close>) and \<^verbatim>\<open>/p/i\<close> (\<open>Contains p\<close>), where \<open>p\<close> is
  written in lower case.
\<close>

datatype pattern = Exact string | Contains string

definition lower :: "char \<Rightarrow> char" where
  "lower c =
     (let n = (of_char c :: nat) in if 65 \<le> n \<and> n \<le> 90 then char_of (n + 32) else c)"

fun includesStr :: "string \<Rightarrow> string \<Rightarrow> bool" where
  "includesStr [] p = (p = [])"
| "includesStr (x # xs) p = (startsWith (x # xs) p \<or> includesStr xs p)"

fun test :: "pattern \<Rightarrow> string \<Rightarrow> bool" where
  "test (Exact p) k = (map lower k = p)"
| "test (Contains p) k = includesStr (map lower k) p"

text \<open>\<^verbatim>\<open>const findKey = (patterns: RegExp[]) => keys.find(k => patterns.some(p => p.test(k)))\<close>.\<close>

definition findKey :: "string list \<Rightarrow> pattern list \<Rightarrow> string option" where
  "findKey keys patterns = find (\<lambda>k. list_ex (\<lambda>p. test p k) patterns) keys"

definition urlPatterns :: "pattern list" where
  "urlPatterns = [Exact ''image_url'', Exact ''url'', Exact ''link'', Exact ''src'',
                  Contains ''link'', Contains ''url'']"

definition hotelIdPatterns :: "pattern list" where
  "hotelIdPatterns = [Exact ''hotel_id'', Exact ''hotelid'', Exact ''hotel'', Contains ''hotel_id'']"

definition hotelNamePatterns :: "pattern list" where
  "hotelNamePatterns = [Exact ''hotel_name'', Exact ''hotelname'', Exact ''name'', Exact ''hotel name'']"

definition imageIdPatterns :: "pattern list" where
  "imageIdPatterns = [Exact ''image_id'', Exact ''imageid'', Exact ''id'', Contains ''image_id'']"

text \<open>
  \<^verbatim>\<open>urlKey || keys.find(k => String(firstRow[k]).startsWith('http'))\<close>. No pattern
  matches the empty column name, so \<open>urlKey\<close> is truthy whenever it is found.
\<close>

definition sniffUrlKey :: "string list \<Rightarrow> (string \<times> jsval) list \<Rightarrow> string option" where
  "sniffUrlKey keys firstRow = find (\<lambda>k. startsWith (js_String (cell firstRow k)) ''http'') keys"

definition effectiveUrlKey :: "string list \<Rightarrow> (string \<times> jsval) list \<Rightarrow> string option" where
  "effectiveUrlKey keys firstRow =
     (case findKey keys urlPatterns of
        Some k \<Rightarrow> Some k
      | None \<Rightarrow> sniffUrlKey keys firstRow)"

text \<open>
  \<^verbatim>\<open>url.split('/').pop()?.split('?')[0] || `image-${idx}.jpg`\<close>, and
  \<^verbatim>\<open>hotelIdKey ? row[hotelIdKey] : undefined\<close>.
\<close>

definition sheetFilename :: "string \<Rightarrow> nat \<Rightarrow> string" where
  "sheetFilename u idx =
     (let seg = hd (split_on CHR ''?'' (last (split_on CHR ''/'' u)))
      in if seg \<noteq> [] then seg else ''image-'' @ show_nat idx @ ''.jpg'')"

definition optCell :: "string option \<Rightarrow> (string \<times> jsval) list \<Rightarrow> jsval" where
  "optCell key row =
     (case key of None \<Rightarrow> JUndefined | Some k \<Rightarrow> if k \<noteq> [] then cell row k else JUndefined)"

datatype upload_error = SheetEmpty | UrlColumnNotDetected | UrlColumnNotFound | NoRowsExtracted

text \<open>
  \<^verbatim>\<open>handleExcelUpload\<close> from \<^verbatim>\<open>jsonData\<close> on, the rows that \<^verbatim>\<open>XLSX.utils.sheet_to_json\<close>
  returns; \<open>keys\<close> is \<^verbatim>\<open>Object.keys(firstRow)\<close>. \<open>stamp idx\<close> is the text of
  \<^verbatim>\<open>Date.now()\<close> when the item \<open>idx\<close> is built.
\<close>

definition sheetItem :: "(nat \<Rightarrow> string) \<Rightarrow> string \<Rightarrow> string option \<Rightarrow> string option \<Rightarrow> string option
    \<Rightarrow> nat \<times> (string \<times> jsval) list \<Rightarrow> ImageItem" where
  "sheetItem stamp urlKey hotelIdKey hotelNameKey imageIdKey ir =
     (let idx = fst ir; row = snd ir; u = trim (js_String (cell row urlKey))
      in \<lparr>imgId = ''img-xlsx-'' @ stamp idx @ ''-'' @ show_nat idx,
          url = u,
          filename = sheetFilename u idx,
          tags = [],
          hotelId = optCell hotelIdKey row,
          hotelName = optCell hotelNameKey row,
          originalImageId = optCell imageIdKey row\<rparr>)"

definition handleExcelUpload :: "(nat \<Rightarrow> string) \<Rightarrow> (string \<times> jsval) list list \<Rightarrow> upload_error + ImageItem list" where
  "handleExcelUpload stamp jsonData =
     (case jsonData of
        [] \<Rightarrow> Inl SheetEmpty
      | firstRow # rest \<Rightarrow>
          (let keys = map fst firstRow;
               urlKey = findKey keys urlPatterns;
               hotelIdKey = findKey keys hotelIdPatterns;
               hotelNameKey = findKey keys hotelNamePatterns;
               imageIdKey = findKey keys imageIdPatterns
           in if urlKey = None \<and> \<not> list_ex (\<lambda>k. startsWith (js_String (cell firstRow k)) ''http'') keys
              then Inl UrlColumnNotDetected
              else
                (case effectiveUrlKey keys firstRow of
                   None \<Rightarrow> Inl UrlColumnNotFound
                 | Some k \<Rightarrow>
                     if k = [] then Inl UrlColumnNotFound
                     else
                       (let parsedItems =
                              map (sheetItem stamp k hotelIdKey hotelNameKey imageIdKey)
                                (enumerate 0 (filter (\<lambda>row. truthy (cell row k)) jsonData))
                        in if parsedItems = [] then Inl NoRowsExtracted else Inr parsedItems))))"

section \<open>Session export\<close>










section \<open>Session import\<close>

text \<open>
  \<^verbatim>\<open>handleJsonSessionUpload\<close>, the same text in both variants, from the parsed \<open>json\<close>
  on. An exception anywhere is caught by the handler's \<^verbatim>\<open>catch\<close> (\<open>ImportException\<close>).
  \<open>fresh i\<close> is the text \<^verbatim>\<open>`${Date.now()}-${Math.random().toString(36).substr(2, 9)}`\<close>
  made for the row \<open>i\<close>, and \<open>stamp i\<close> the text of \<^verbatim>\<open>Date.now()\<close> for the item \<open>i\<close>.
\<close>

datatype import_error = InvalidOrEmpty | NoValidImages | ImportException

type_synonym flat_acc = "(string \<times> ImageItem) list \<times> (string \<times> TagDefinition) list"

text \<open>\<^verbatim>\<open>url.split('/').pop() || 'unknown'\<close>.\<close>

definition importFilename :: "string \<Rightarrow> string" where
  "importFilename u =
     (let seg = last (split_on CHR ''/'' u) in if seg \<noteq> [] then seg else ''unknown'')"

text \<open>
  The object that the flat branch stores for a new \<open>url\<close>. A truthy \<open>url\<close> that is not
  a string has no method \<^verbatim>\<open>split\<close>, so building the object throws.
\<close>

definition restoredId :: "jsval \<Rightarrow> string \<Rightarrow> string" where
  "restoredId image_id other =
     (if truthy image_id then ''restored-'' @ js_String image_id else ''img-restored-'' @ other)"

definition newFlatItem :: "(nat \<Rightarrow> string) \<Rightarrow> nat \<Rightarrow> jsval \<Rightarrow> string \<Rightarrow> ImageItem" where
  "newFlatItem fresh i row u =
     \<lparr>imgId = restoredId (getProp row ''image_id'') (fresh i),
      url = u,
      filename = importFilename u,
      tags = [],
      hotelId = getProp row ''hotel_id'',
      hotelName = getProp row ''hotel_name'',
      originalImageId = getProp row ''image_id''\<rparr>"

text \<open>
  The second half of the loop body: \<^verbatim>\<open>const tagName = row["tag name"] || row["tag_name"];
  if (tagName && typeof tagName === 'string' && tagName.trim() !== '') { ... }\<close>, for the
  image \<open>img\<close> that \<^verbatim>\<open>groupedImages.get(url)\<close> returned.
\<close>

definition addFlatTag :: "jsval \<Rightarrow> string \<Rightarrow> ImageItem \<Rightarrow> flat_acc \<Rightarrow> flat_acc" where
  "addFlatTag row u img acc =
     (case js_or (getProp row ''tag name'') (getProp row ''tag_name'') of
        JStr tagName \<Rightarrow>
          if tagName \<noteq> [] \<and> trim tagName \<noteq> [] then
            (let groupedImages =
                   (if JStr tagName \<notin> set (tags img)
                    then AList.update u (img\<lparr>tags := tags img @ [JStr tagName]\<rparr>) (fst acc)
                    else fst acc);
                 recoveredDefs =
                   (if tagName \<notin> set (map fst (snd acc))
                    then AList.update tagName
                           \<lparr>tag = JStr tagName,
                            title1 = js_or (getProp row ''title1'') (JStr []),
                            title2 = js_or (getProp row ''title2'') (JStr []),
                            content = js_or (getProp row ''content'') (JStr [])\<rparr> (snd acc)
                    else snd acc)
             in (groupedImages, recoveredDefs))
          else acc
      | _ \<Rightarrow> acc)"

definition flatRow :: "(nat \<Rightarrow> string) \<Rightarrow> nat \<times> jsval \<Rightarrow> flat_acc \<Rightarrow> import_error + flat_acc" where
  "flatRow fresh ir acc =
     (let i = fst ir; row = snd ir in
      if nullish row then Inl ImportException
      else if \<not> truthy (getProp row ''image_url'') then Inr acc
      else
        (case getProp row ''image_url'' of
           JStr u \<Rightarrow>
             (let groupedImages =
                    (if u \<notin> set (map fst (fst acc))
                     then AList.update u (newFlatItem fresh i row u) (fst acc)
                     else fst acc)
              in case map_of groupedImages u of
                   None \<Rightarrow> Inl ImportException
                 | Some img \<Rightarrow> Inr (addFlatTag row u img (groupedImages, snd acc)))
         | _ \<Rightarrow> Inl ImportException))"

definition importFlat :: "(nat \<Rightarrow> string) \<Rightarrow> jsval list \<Rightarrow> import_error + ImageItem list \<times> TagDefinition list" where
  "importFlat fresh rows =
     (case forEach (flatRow fresh) (enumerate 0 rows) ([], []) of
        Inl e \<Rightarrow> Inl e
      | Inr acc \<Rightarrow> Inr (map snd (fst acc), map snd (snd acc)))"

text \<open>
  The legacy branch. \<^verbatim>\<open>item.tags.map((t: any) => typeof t === 'string' ? t : t.tag)\<close>
  throws on an entry that is \<^verbatim>\<open>null\<close>.
\<close>

definition legacyTag :: "jsval \<Rightarrow> jsval list \<Rightarrow> import_error + jsval list" where
  "legacyTag t acc =
     (case t of
        JStr s \<Rightarrow> Inr (acc @ [t])
      | _ \<Rightarrow> if nullish t then Inl ImportException else Inr (acc @ [getProp t ''tag'']))"

definition legacyTags :: "jsval \<Rightarrow> import_error + jsval list" where
  "legacyTags ts = (if isArray ts then forEach legacyTag (elems ts) [] else Inr [])"

text \<open>
  One step of \<^verbatim>\<open>json.map((item, idx) => ({ ... })).filter(item => item.url)\<close>. The
  object is built for every item, so its exceptions happen whether or not the item is
  kept; an item whose \<^verbatim>\<open>image_url\<close> is falsy is then dropped. \<^verbatim>\<open>(item.image_url ||
  '').split('/')\<close> throws for a truthy \<^verbatim>\<open>image_url\<close> that is not a string.
\<close>

definition legacyItem :: "(nat \<Rightarrow> string) \<Rightarrow> nat \<times> jsval \<Rightarrow> ImageItem list \<Rightarrow> import_error + ImageItem list" where
  "legacyItem stamp ir acc =
     (let idx = fst ir; item = snd ir in
      if nullish item then Inl ImportException
      else
        (case legacyTags (getProp item ''tags'') of
           Inl e \<Rightarrow> Inl e
         | Inr ts \<Rightarrow>
             if \<not> truthy (getProp item ''image_url'') then Inr acc
             else
               (case getProp item ''image_url'' of
                  JStr u \<Rightarrow>
                    Inr (acc @
                      [\<lparr>imgId = restoredId (getProp item ''image_id'') (stamp idx @ ''-'' @ show_nat idx),
                        url = u,
                        filename = importFilename u,
                        tags = ts,
                        hotelId = getProp item ''hotel_id'',
                        hotelName = getProp item ''hotel_name'',
                        originalImageId = getProp item ''image_id''\<rparr>])
                | _ \<Rightarrow> Inl ImportException)))"

text \<open>
  The body of \<^verbatim>\<open>row.tags.forEach((t: any) => { if (typeof t === 'object' && t.tag &&
  !seen.has(t.tag)) { ... } else if (typeof t === 'string' && !seen.has(t)) { ... } })\<close>.
  The definition recovered from a string has no \<^verbatim>\<open>content\<close>.
\<close>

definition legacyDef :: "jsval \<Rightarrow> tag_acc \<Rightarrow> import_error + tag_acc" where
  "legacyDef t acc =
     (if typeofObject t \<and> nullish t then Inl ImportException
      else if typeofObject t \<and> truthy (getProp t ''tag'') \<and> \<not> seen_has (snd acc) (getProp t ''tag'')
      then Inr (fst acc @ [definitionOf t], snd acc @ [getProp t ''tag''])
      else
        (case t of
           JStr s \<Rightarrow>
             if \<not> seen_has (snd acc) t
             then Inr (fst acc @ [\<lparr>tag = t, title1 = JStr [], title2 = JStr [], content = JUndefined\<rparr>],
                       snd acc @ [t])
             else Inr acc
         | _ \<Rightarrow> Inr acc))"

definition legacyDefsOfRow :: "jsval \<Rightarrow> tag_acc \<Rightarrow> import_error + tag_acc" where
  "legacyDefsOfRow row acc =
     (if nullish row then Inl ImportException
      else if isArray (getProp row ''tags'') then forEach legacyDef (elems (getProp row ''tags'')) acc
      else Inr acc)"

definition importLegacy :: "(nat \<Rightarrow> string) \<Rightarrow> jsval list \<Rightarrow> import_error + ImageItem list \<times> TagDefinition list" where
  "importLegacy stamp rows =
     (case forEach (legacyItem stamp) (enumerate 0 rows) [] of
        Inl e \<Rightarrow> Inl e
      | Inr restoredImages \<Rightarrow>
          (case forEach legacyDefsOfRow rows ([], []) of
             Inl e \<Rightarrow> Inl e
           | Inr acc \<Rightarrow>
               if restoredImages \<noteq> [] then Inr (restoredImages, fst acc) else Inl NoValidImages))"

text \<open>
  \<^verbatim>\<open>if (Array.isArray(json) && json.length > 0) { const isFlatFormat = "tag name" in
  json[0] || "tag_name" in json[0]; ... } else { alert(...) }\<close>.
\<close>

definition importSession :: "(nat \<Rightarrow> string) \<Rightarrow> (nat \<Rightarrow> string) \<Rightarrow> jsval
    \<Rightarrow> import_error + ImageItem list \<times> TagDefinition list" where
  "importSession fresh stamp json =
     (case json of
        JArr (first # rest) \<Rightarrow>
          (case js_in ''tag name'' first of
             None \<Rightarrow> Inl ImportException
           | Some a \<Rightarrow>
               if a \<or> js_in ''tag_name'' first = Some True
               then importFlat fresh (first # rest)
               else importLegacy stamp (first # rest))
      | _ \<Rightarrow> Inl InvalidOrEmpty)"

definition handleJsonSessionUpload :: "(string \<Rightarrow> jsval option) \<Rightarrow> (nat \<Rightarrow> string) \<Rightarrow> (nat \<Rightarrow> string)
    \<Rightarrow> string \<Rightarrow> import_error + ImageItem list \<times> TagDefinition list" where
  "handleJsonSessionUpload JSON_parse fresh stamp fileText =
     (case JSON_parse fileText of
        None \<Rightarrow> Inl ImportException
      | Some json \<Rightarrow> importSession fresh stamp json)"

section \<open>Labeling store\<close>

text \<open>
  \<^verbatim>\<open>handleToggleTag(imageId: string, tag: string)\<close> of \<^verbatim>\<open>src/App.tsx\<close>:
  \<^verbatim>\<open>setImages(prev => prev.map(img => { if (img.id === imageId) { const hasTag =
  img.tags.includes(tag); return { ...img, tags: hasTag ? img.tags.filter(t => t !== tag)
  : [...img.tags, tag] }; } return img; }))\<close>.
\<close>

definition handleToggleTag :: "string \<Rightarrow> string \<Rightarrow> ImageItem list \<Rightarrow> ImageItem list" where
  "handleToggleTag imageId tg prev =
     map (\<lambda>img.
       if imgId img = imageId then
         (let hasTag = (JStr tg \<in> set (tags img))
          in img\<lparr>tags := (if hasTag then filter (\<lambda>t. t \<noteq> JStr tg) (tags img)
                            else tags img @ [JStr tg])\<rparr>)
       else img) prev"

text \<open>
  The same handler in \<^verbatim>\<open>src/unnamed/part_000\<close>, which tests the other way round:
  \<^verbatim>\<open>if (img.id !== imageId) return img;\<close>.
\<close>

definition handleToggleTag_p0 :: "string \<Rightarrow> string \<Rightarrow> ImageItem list \<Rightarrow> ImageItem list" where
  "handleToggleTag_p0 imageId tg prev =
     map (\<lambda>img.
       if imgId img \<noteq> imageId then img
       else
         (let hasTag = (JStr tg \<in> set (tags img))
          in img\<lparr>tags := (if hasTag then filter (\<lambda>t. t \<noteq> JStr tg) (tags img)
                            else tags img @ [JStr tg])\<rparr>)) prev"

section \<open>A reader for JSON text\<close>

text \<open>
  The theorems about the tag parser hold for any function in the place of
  \<^verbatim>\<open>JSON.parse\<close>. The examples need its result on concrete texts, which \<open>json_parse\<close>
  computes for the JSON grammar without fractions, exponents and \<^verbatim>\<open>\u\<close> escapes (the
  values of \<^typ>\<open>jsval\<close>): a scanner that cuts the text into tokens, and a machine with
  a stack of the arrays and objects that are still open. A repeated key keeps its first
  position and its last value, as in JavaScript.
\<close>

datatype token = TLBrack | TRBrack | TLBrace | TRBrace | TComma | TColon | TValue jsval

datatype scan_mode = Idle | InString string | InEscape string | InNumber string | InWord string

definition is_digit :: "char \<Rightarrow> bool" where
  "is_digit c = (let n = (of_char c :: nat) in 48 \<le> n \<and> n \<le> 57)"

definition is_letter :: "char \<Rightarrow> bool" where
  "is_letter c = (let n = (of_char c :: nat) in (97 \<le> n \<and> n \<le> 122) \<or> (65 \<le> n \<and> n \<le> 90))"

definition is_json_ws :: "char \<Rightarrow> bool" where
  "is_json_ws c = (c \<in> set [CHR 0x20, CHR 0x09, CHR 0x0A, CHR 0x0D])"

definition unescape :: "char \<Rightarrow> char option" where
  "unescape c =
     (if c = CHR 0x22 then Some (CHR 0x22)
      else if c = CHR 0x5C then Some (CHR 0x5C)
      else if c = CHR ''/'' then Some (CHR ''/'')
      else if c = CHR ''b'' then Some (CHR 0x08)
      else if c = CHR ''f'' then Some (CHR 0x0C)
      else if c = CHR ''n'' then Some (CHR 0x0A)
      else if c = CHR ''r'' then Some (CHR 0x0D)
      else if c = CHR ''t'' then Some (CHR 0x09)
      else None)"

fun digits_value :: "string \<Rightarrow> nat \<Rightarrow> nat" where
  "digits_value [] acc = acc"
| "digits_value (c # cs) acc = digits_value cs (10 * acc + (of_char c - 48))"

text \<open>An integer literal: an optional minus sign, then \<^verbatim>\<open>0\<close> or digits not starting with \<^verbatim>\<open>0\<close>.\<close>

definition number_token :: "string \<Rightarrow> token option" where
  "number_token lit =
     (let neg = (lit \<noteq> [] \<and> hd lit = CHR ''-'');
          ds = (if neg then tl lit else lit)
      in if ds = [] \<or> \<not> list_all is_digit ds \<or> (hd ds = CHR ''0'' \<and> tl ds \<noteq> []) then None
         else Some (TValue (JNum (if neg then - int (digits_value ds 0) else int (digits_value ds 0)))))"

definition word_token :: "string \<Rightarrow> token option" where
  "word_token w =
     (if w = ''null'' then Some (TValue JNull)
      else if w = ''true'' then Some (TValue (JBool True))
      else if w = ''false'' then Some (TValue (JBool False))
      else None)"

definition punct_token :: "char \<Rightarrow> token option" where
  "punct_token c =
     (if c = CHR ''['' then Some TLBrack
      else if c = CHR '']'' then Some TRBrack
      else if c = CHR ''{'' then Some TLBrace
      else if c = CHR ''}'' then Some TRBrace
      else if c = CHR '','' then Some TComma
      else if c = CHR '':'' then Some TColon
      else None)"

definition emit :: "token option \<Rightarrow> token list option \<Rightarrow> token list option" where
  "emit t rest =
     (case t of None \<Rightarrow> None | Some tok \<Rightarrow> (case rest of None \<Rightarrow> None | Some toks \<Rightarrow> Some (tok # toks)))"

fun json_scan :: "scan_mode \<Rightarrow> string \<Rightarrow> token list option" where
  "json_scan Idle [] = Some []"
| "json_scan Idle (c # cs) =
     (if is_json_ws c then json_scan Idle cs
      else if c = CHR 0x22 then json_scan (InString []) cs
      else if is_digit c \<or> c = CHR ''-'' then json_scan (InNumber [c]) cs
      else if is_letter c then json_scan (InWord [c]) cs
      else emit (punct_token c) (json_scan Idle cs))"
| "json_scan (InString acc) [] = None"
| "json_scan (InString acc) (c # cs) =
     (if c = CHR 0x22 then emit (Some (TValue (JStr (rev acc)))) (json_scan Idle cs)
      else if c = CHR 0x5C then json_scan (InEscape acc) cs
      else if (of_char c :: nat) < 32 then None
      else json_scan (InString (c # acc)) cs)"
| "json_scan (InEscape acc) [] = None"
| "json_scan (InEscape acc) (c # cs) =
     (case unescape c of None \<Rightarrow> None | Some d \<Rightarrow> json_scan (InString (d # acc)) cs)"
| "json_scan (InNumber acc) [] = emit (number_token (rev acc)) (Some [])"
| "json_scan (InNumber acc) (c # cs) =
     (if is_digit c then json_scan (InNumber (c # acc)) cs
      else if is_letter c \<or> c = CHR ''.'' \<or> c = CHR ''+'' \<or> c = CHR ''-'' then None
      else emit (number_token (rev acc))
             (if is_json_ws c then json_scan Idle cs
              else if c = CHR 0x22 then json_scan (InString []) cs
              else emit (punct_token c) (json_scan Idle cs)))"
| "json_scan (InWord acc) [] = emit (word_token (rev acc)) (Some [])"
| "json_scan (InWord acc) (c # cs) =
     (if is_letter c then json_scan (InWord (c # acc)) cs
      else if is_digit c then None
      else if c = CHR ''-'' then None
      else emit (word_token (rev acc))
             (if is_json_ws c then json_scan Idle cs
              else if c = CHR 0x22 then json_scan (InString []) cs
              else emit (punct_token c) (json_scan Idle cs)))"

datatype frame =
    ArrStart "jsval list"
  | ArrAfterValue "jsval list"
  | ArrAfterComma "jsval list"
  | ObjStart "(string \<times> jsval) list"
  | ObjAfterKey "(string \<times> jsval) list" string
  | ObjAfterColon "(string \<times> jsval) list" string
  | ObjAfterValue "(string \<times> jsval) list"
  | ObjAfterComma "(string \<times> jsval) list"

datatype machine = Start | Open "frame list" | Done jsval

text \<open>A completed value goes to the array or object that is open around it.\<close>

fun deliver :: "jsval \<Rightarrow> frame list \<Rightarrow> machine option" where
  "deliver v [] = Some (Done v)"
| "deliver v (ArrStart xs # st) = Some (Open (ArrAfterValue (xs @ [v]) # st))"
| "deliver v (ArrAfterComma xs # st) = Some (Open (ArrAfterValue (xs @ [v]) # st))"
| "deliver v (ObjAfterColon kvs k # st) = Some (Open (ObjAfterValue (AList.update k v kvs) # st))"
| "deliver v (f # st) = None"

fun expects_value :: "frame list \<Rightarrow> bool" where
  "expects_value [] = True"
| "expects_value (ArrStart xs # st) = True"
| "expects_value (ArrAfterComma xs # st) = True"
| "expects_value (ObjAfterColon kvs k # st) = True"
| "expects_value (f # st) = False"

fun json_open :: "token \<Rightarrow> frame list \<Rightarrow> machine option" where
  "json_open TLBrack st = (if expects_value st then Some (Open (ArrStart [] # st)) else None)"
| "json_open TLBrace st = (if expects_value st then Some (Open (ObjStart [] # st)) else None)"
| "json_open TRBrack (ArrStart xs # st) = deliver (JArr xs) st"
| "json_open TRBrack (ArrAfterValue xs # st) = deliver (JArr xs) st"
| "json_open TRBrace (ObjStart kvs # st) = deliver (JObj kvs) st"
| "json_open TRBrace (ObjAfterValue kvs # st) = deliver (JObj kvs) st"
| "json_open TComma (ArrAfterValue xs # st) = Some (Open (ArrAfterComma xs # st))"
| "json_open TComma (ObjAfterValue kvs # st) = Some (Open (ObjAfterComma kvs # st))"
| "json_open TColon (ObjAfterKey kvs k # st) = Some (Open (ObjAfterColon kvs k # st))"
| "json_open (TValue (JStr k)) (ObjStart kvs # st) = Some (Open (ObjAfterKey kvs k # st))"
| "json_open (TValue (JStr k)) (ObjAfterComma kvs # st) = Some (Open (ObjAfterKey kvs k # st))"
| "json_open (TValue v) st = (if expects_value st then deliver v st else None)"
| "json_open t st = None"

fun json_step :: "token \<Rightarrow> machine \<Rightarrow> machine option" where
  "json_step t Start = json_open t []"
| "json_step t (Open st) = json_open t st"
| "json_step t (Done v) = None"

fun json_run :: "token list \<Rightarrow> machine \<Rightarrow> jsval option" where
  "json_run [] (Done v) = Some v"
| "json_run [] m = None"
| "json_run (t # ts) m = (case json_step t m of None \<Rightarrow> None | Some m' \<Rightarrow> json_run ts m')"

definition json_parse :: "string \<Rightarrow> jsval option" where
  "json_parse s = (case json_scan Idle s of None \<Rightarrow> None | Some toks \<Rightarrow> json_run toks Start)"

section \<open>The file name as the data model describes it\<close>




section \<open>The entries of a tag definition text, in traversal order\<close>





section \<open>Basic facts\<close>

lemma truthy_toJSON [simp]: "truthy (toJSON v) = truthy v"
  by (cases v) auto

lemma toJSON_eq_JStr [simp]: "(toJSON v = JStr s) = (v = JStr s)"
  by (cases v) auto

lemma toJSON_eq_JUndefined [simp]: "(toJSON v = JUndefined) = (v = JUndefined)"
  by (cases v) auto

lemma nullish_toJSON [simp]: "nullish (toJSON v) = nullish v"
  by (cases v) auto




lemma split_on_nonempty [simp]: "split_on c s \<noteq> []"
  by (induction s) auto







section \<open>Properties of the labeling store\<close>

lemma toggle_variants_agree: "handleToggleTag_p0 imageId tg prev = handleToggleTag imageId tg prev"
  by (simp add: handleToggleTag_def handleToggleTag_p0_def)

text \<open>
  Claim C4. Toggling \<open>tg\<close> on \<open>imageId\<close> keeps the number of images. An image with
  that id that carries the tag loses every occurrence of it, the other tags keeping their
  order (with duplicate-free tags: exactly the one occurrence is cut out); an image
  with that id that does not carry the tag gets it appended at the end; an image
  with another id is untouched; and when no image has the id the whole list is
  returned unchanged. Both variants compute the same function.
\<close>

theorem toggleTag_effect:
  assumes "i < length imgs"
  shows "length (handleToggleTag imageId tg imgs) = length imgs \<and>
    (imgId (imgs ! i) = imageId \<and> JStr tg \<in> set (tags (imgs ! i)) \<longrightarrow>
       handleToggleTag imageId tg imgs ! i
         = (imgs ! i)\<lparr>tags := filter (\<lambda>t. t \<noteq> JStr tg) (tags (imgs ! i))\<rparr> \<and>
       (distinct (tags (imgs ! i)) \<longrightarrow>
          (\<exists>xs ys. tags (imgs ! i) = xs @ JStr tg # ys \<and>
                   tags (handleToggleTag imageId tg imgs ! i) = xs @ ys))) \<and>
    (imgId (imgs ! i) = imageId \<and> JStr tg \<notin> set (tags (imgs ! i)) \<longrightarrow>
       handleToggleTag imageId tg imgs ! i = (imgs ! i)\<lparr>tags := tags (imgs ! i) @ [JStr tg]\<rparr>) \<and>
    (imgId (imgs ! i) \<noteq> imageId \<longrightarrow> handleToggleTag imageId tg imgs ! i = imgs ! i) \<and>
    (imageId \<notin> imgId ` set imgs \<longrightarrow> handleToggleTag imageId tg imgs = imgs) \<and>
    handleToggleTag_p0 imageId tg imgs = handleToggleTag imageId tg imgs"
proof -
  have len: "length (handleToggleTag imageId tg imgs) = length imgs"
    by (simp add: handleToggleTag_def)
  have nth: "handleToggleTag imageId tg imgs ! i =
      (if imgId (imgs ! i) = imageId then
         (imgs ! i)\<lparr>tags := (if JStr tg \<in> set (tags (imgs ! i))
                               then filter (\<lambda>t. t \<noteq> JStr tg) (tags (imgs ! i))
                               else tags (imgs ! i) @ [JStr tg])\<rparr>
       else imgs ! i)"
    using assms by (simp add: handleToggleTag_def Let_def)
  have split: "\<exists>xs ys. ts = xs @ JStr tg # ys \<and> filter (\<lambda>t. t \<noteq> JStr tg) ts = xs @ ys"
    if "JStr tg \<in> set ts" "distinct ts" for ts :: "jsval list"
  proof -
    from that(1) obtain xs ys where ts: "ts = xs @ JStr tg # ys"
      by (meson split_list)
    with that(2) have "JStr tg \<notin> set xs" "JStr tg \<notin> set ys" by auto
    then have "filter (\<lambda>t. t \<noteq> JStr tg) xs = xs" "filter (\<lambda>t. t \<noteq> JStr tg) ys = ys"
      by (auto intro: filter_True)
    then have "filter (\<lambda>t. t \<noteq> JStr tg) ts = xs @ ys"
      by (simp add: ts)
    with ts show ?thesis by blast
  qed
  have noop: "handleToggleTag imageId tg imgs = imgs" if "imageId \<notin> imgId ` set imgs"
    unfolding handleToggleTag_def using that by (intro map_idI) auto
  show ?thesis
    using len nth split noop by (simp add: toggle_variants_agree)
qed


theorem toggleTag_effect_witness:
  "handleToggleTag ''i1'' ''B''
     [\<lparr>imgId = ''i1'', url = ''http://x/a.jpg'', filename = ''a.jpg'',
       tags = [JStr ''A'', JStr ''B'', JStr ''C''], hotelId = JNum 7, hotelName = JUndefined,
       originalImageId = JUndefined\<rparr>] ! 0
   = \<lparr>imgId = ''i1'', url = ''http://x/a.jpg'', filename = ''a.jpg'',
       tags = [JStr ''A'', JStr ''C''], hotelId = JNum 7, hotelName = JUndefined,
       originalImageId = JUndefined\<rparr>"
  using toggleTag_effect [of 0 "[\<lparr>imgId = ''i1'', url = ''http://x/a.jpg'', filename = ''a.jpg'',
       tags = [JStr ''A'', JStr ''B'', JStr ''C''], hotelId = JNum 7, hotelName = JUndefined,
       originalImageId = JUndefined\<rparr>]" "''i1''" "''B''"]
  by simp

section \<open>Column inference\<close>







lemma sheet_roles:
  assumes "handleExcelUpload stamp (r # rs) = Inr items"
  shows "\<exists>k. effectiveUrlKey (map fst r) r = Some k \<and>
           items = map (sheetItem stamp k (findKey (map fst r) hotelIdPatterns)
                          (findKey (map fst r) hotelNamePatterns)
                          (findKey (map fst r) imageIdPatterns))
                     (enumerate 0 (filter (\<lambda>row. truthy (cell row k)) (r # rs)))"
  using assms
  by (auto simp: handleExcelUpload_def Let_def split: if_splits option.splits)



section \<open>File names\<close>

lemma forEach_invariant:
  assumes "forEach f xs s = Inr s'" and "P s"
    and "\<And>x t t'. x \<in> set xs \<Longrightarrow> P t \<Longrightarrow> f x t = Inr t' \<Longrightarrow> P t'"
  shows "P s'"
  using assms
proof (induction xs arbitrary: s)
  case Nil
  then show ?case by simp
next
  case (Cons x xs)
  from Cons.prems(1) obtain t where t: "f x s = Inr t" and rest: "forEach f xs t = Inr s'"
    by (auto split: sum.splits)
  have "P t" using Cons.prems(2,3) t by auto
  then show ?case
    using Cons.IH [OF rest] Cons.prems(3) by auto
qed

lemma set_AList_update: "set (AList.update k v al) \<subseteq> insert (k, v) (set al)"
  by (induction al) auto














section \<open>Tag extraction\<close>















lemma parse_reaches_extract:
  assumes "parseTagInput JSON_parse raw = Inr defs" and "defs \<noteq> []"
  shows "\<exists>data. (JSON_parse raw = Some data \<or>
                  (JSON_parse raw = None \<and> JSON_parse (sanitize raw) = Some data)) \<and>
                extractTags data = Inr defs"
  using assms by (auto simp: parseTagInput_def split: if_splits option.splits)

lemma parse_p0_reaches_extract:
  assumes "parseTagInput_p0 JSON_parse raw = Inr defs" and "defs \<noteq> []"
  shows "\<exists>data. JSON_parse (sanitize raw) = Some data \<and> extractTags_p0 data = Inr defs"
  using assms by (auto simp: parseTagInput_p0_def split: if_splits option.splits)



section \<open>Strict parsing and sanitization\<close>

lemma replace_quote_map:
  "replace_all [CHR 0x27] [CHR 0x22] s = map (\<lambda>c. if c = CHR 0x27 then CHR 0x22 else c) s"
  by (induction s) auto




section \<open>Accepted root shapes and the cost of sanitization\<close>




lemma sanitize_example:
  \<open>sanitize ''NoneTrueFalsehood'' = ''nulltruefalsehood'' \<and>
   json_parse ''[{'short_point': [{'tag': 'A', 'content': 'is None'}]}]'' = None \<and>
   json_parse ''[{"short_point": [{"tag": "A", "content": "is None"}]}]''
     = Some (JArr [JObj [(''short_point'',
                          JArr [JObj [(''tag'', JStr ''A''), (''content'', JStr ''is None'')]])]]) \<and>
   sanitize ''[{'short_point': [{'tag': 'A', 'content': 'is None'}]}]''
     = ''[{"short_point": [{"tag": "A", "content": "is null"}]}]'' \<and>
   parseTagInput json_parse ''[{'short_point': [{'tag': 'A', 'content': 'is None'}]}]''
     = Inr [\<lparr>tag = JStr ''A'', title1 = JStr [], title2 = JStr [], content = JStr ''is null''\<rparr>] \<and>
   parseTagInput_p0 json_parse ''[{'short_point': [{'tag': 'A', 'content': 'is None'}]}]''
     = Inr [\<lparr>tag = JStr ''A'', title1 = JStr [], title2 = JStr [], content = JStr ''is null''\<rparr>]\<close>
  by code_simp

lemma startsWith_decomp: "startsWith s p \<Longrightarrow> s = p @ drop (length p) s"
  by (induction s p rule: startsWith.induct) auto

lemma startsWith_map: "startsWith s p \<Longrightarrow> startsWith (map f s) (map f p)"
  by (induction s p rule: startsWith.induct) auto

lemma includesStr_map: "includesStr s p \<Longrightarrow> includesStr (map f s) (map f p)"
proof (induction s)
  case Nil
  then show ?case by simp
next
  case (Cons x xs)
  then show ?case
    using startsWith_map [of "x # xs" p f] by auto
qed

lemma replaced_shape:
  assumes "pat \<noteq> []" and "startsWith (x # xs) pat"
  shows "x # xs = pat @ drop (length pat - 1) xs"
proof -
  from assms(1) obtain n where n: "length pat = Suc n"
    by (cases pat) auto
  from startsWith_decomp [OF assms(2)] show ?thesis
    by (simp add: n)
qed

lemma replace_count_le:
  assumes "count_list rep c \<le> count_list pat c"
  shows "count_list (replace_all pat rep s) c \<le> count_list s c"
  using assms
proof (induction pat rep s rule: replace_all.induct)
  case (1 pat rep)
  then show ?case by simp
next
  case (2 pat rep x xs)
  show ?case
  proof (cases "pat \<noteq> [] \<and> startsWith (x # xs) pat")
    case True
    then have sh: "x # xs = pat @ drop (length pat - 1) xs"
      using replaced_shape by blast
    have "count_list (x # xs) c = count_list pat c + count_list (drop (length pat - 1) xs) c"
      by (subst sh) simp
    with 2 True show ?thesis by simp
  next
    case False
    with 2 show ?thesis by auto
  qed
qed

lemma replace_count_less:
  assumes "count_list rep c < count_list pat c" and "includesStr s pat"
  shows "count_list (replace_all pat rep s) c < count_list s c"
  using assms
proof (induction pat rep s rule: replace_all.induct)
  case (1 pat rep)
  then show ?case by auto
next
  case (2 pat rep x xs)
  have pne: "pat \<noteq> []" using 2(3) by auto
  show ?case
  proof (cases "startsWith (x # xs) pat")
    case True
    then have sh: "x # xs = pat @ drop (length pat - 1) xs"
      using replaced_shape pne by blast
    have "count_list (x # xs) c = count_list pat c + count_list (drop (length pat - 1) xs) c"
      by (subst sh) simp
    moreover have "count_list (replace_all pat rep (drop (length pat - 1) xs)) c
        \<le> count_list (drop (length pat - 1) xs) c"
      using 2(3) by (intro replace_count_le) simp
    ultimately show ?thesis
      using True pne 2(3) by simp
  next
    case False
    with 2(4) have "includesStr xs pat" by simp
    with 2(2) [OF _ 2(3)] False show ?thesis by auto
  qed
qed

lemma sanitize_loses_capital:
  assumes "includesStr raw ''None''"
  shows "count_list (sanitize raw) (CHR ''N'') < count_list raw (CHR ''N'')"
proof -
  define q where "q = map (\<lambda>c. if c = CHR 0x27 then CHR 0x22 else c) raw"
  have inc: "includesStr q ''None''"
    using includesStr_map [OF assms, of "\<lambda>c. if c = CHR 0x27 then CHR 0x22 else c"]
    by (simp add: q_def)
  have same: "count_list q (CHR ''N'') = count_list raw (CHR ''N'')"
    unfolding q_def by (induction raw) auto
  have 1: "count_list (replace_all ''None'' ''null'' q) (CHR ''N'') < count_list q (CHR ''N'')"
    by (rule replace_count_less [OF _ inc]) simp
  have 2: "count_list (replace_all ''True'' ''true'' s) (CHR ''N'') \<le> count_list s (CHR ''N'')" for s
    by (rule replace_count_le) simp
  have 3: "count_list (replace_all ''False'' ''false'' s) (CHR ''N'') \<le> count_list s (CHR ''N'')" for s
    by (rule replace_count_le) simp
  have "sanitize raw =
      replace_all ''False'' ''false'' (replace_all ''True'' ''true'' (replace_all ''None'' ''null'' q))"
    by (simp add: sanitize_def replace_quote_map q_def)
  then show ?thesis
    using 1 2 [of "replace_all ''None'' ''null'' q"]
      3 [of "replace_all ''True'' ''true'' (replace_all ''None'' ''null'' q)"] same
    by simp
qed

text \<open>
  Claim C10. The sanitization replaces \<^verbatim>\<open>None\<close>, \<^verbatim>\<open>True\<close> and \<^verbatim>\<open>False\<close> wherever the
  letters stand, also inside a longer word or a quoted value: any text in which the
  letters \<^verbatim>\<open>None\<close> occur comes out with fewer capital \<^verbatim>\<open>N\<close>, so it is changed.
  The text \<^verbatim>\<open>[{'short_point': [{'tag': 'A', 'content': 'is None'}]}]\<close> is not JSON,
  so both variants parse its sanitized form, and the definition they return has the
  content \<^verbatim>\<open>is null\<close> where the text says \<^verbatim>\<open>is None\<close> (the same text with double
  quotes parses to the content \<^verbatim>\<open>is None\<close>).
\<close>

theorem sanitize_raw_substrings:
  \<open>(includesStr raw ''None'' \<longrightarrow>
      count_list (sanitize raw) (CHR ''N'') < count_list raw (CHR ''N'') \<and> sanitize raw \<noteq> raw) \<and>
   sanitize ''NoneTrueFalsehood'' = ''nulltruefalsehood'' \<and>
   json_parse ''[{'short_point': [{'tag': 'A', 'content': 'is None'}]}]'' = None \<and>
   json_parse ''[{"short_point": [{"tag": "A", "content": "is None"}]}]''
     = Some (JArr [JObj [(''short_point'',
                          JArr [JObj [(''tag'', JStr ''A''), (''content'', JStr ''is None'')]])]]) \<and>
   sanitize ''[{'short_point': [{'tag': 'A', 'content': 'is None'}]}]''
     = ''[{"short_point": [{"tag": "A", "content": "is null"}]}]'' \<and>
   parseTagInput json_parse ''[{'short_point': [{'tag': 'A', 'content': 'is None'}]}]''
     = Inr [\<lparr>tag = JStr ''A'', title1 = JStr [], title2 = JStr [], content = JStr ''is null''\<rparr>] \<and>
   parseTagInput_p0 json_parse ''[{'short_point': [{'tag': 'A', 'content': 'is None'}]}]''
     = Inr [\<lparr>tag = JStr ''A'', title1 = JStr [], title2 = JStr [], content = JStr ''is null''\<rparr>]\<close>
proof -
  have "count_list (sanitize raw) (CHR ''N'') < count_list raw (CHR ''N'') \<and> sanitize raw \<noteq> raw"
    if "includesStr raw ''None''"
    using sanitize_loses_capital [OF that] by auto
  then show ?thesis
    using sanitize_example by blast
qed

theorem sanitize_raw_substrings_witness:
  \<open>includesStr ''[{'short_point': [{'tag': 'A', 'content': 'is None'}]}]'' ''None'' \<and>
   sanitize ''[{'short_point': [{'tag': 'A', 'content': 'is None'}]}]''
     \<noteq> ''[{'short_point': [{'tag': 'A', 'content': 'is None'}]}]''\<close>
proof -
  have g: \<open>includesStr ''[{'short_point': [{'tag': 'A', 'content': 'is None'}]}]'' ''None''\<close>
    by code_simp
  from sanitize_raw_substrings [of \<open>''[{'short_point': [{'tag': 'A', 'content': 'is None'}]}]''\<close>] g
  show ?thesis by blast
qed

section \<open>Export and import\<close>


















section \<open>The exported records\<close>


















section \<open>Duplicate tags\<close>

lemma flatRow_distinct:
  assumes "flatRow fresh ir acc = Inr acc'"
    and "\<forall>p\<in>set (fst acc). distinct (tags (snd p))"
  shows "\<forall>p\<in>set (fst acc'). distinct (tags (snd p))"
proof -
  define row where "row = snd ir"
  show ?thesis
  proof (cases "truthy (getProp row ''image_url'')")
    case False
    with assms show ?thesis
      by (auto simp: flatRow_def Let_def row_def split: if_splits)
  next
    case True
    from assms(1) True obtain u img g where
      u: "getProp row ''image_url'' = JStr u"
      and g: "g = (if u \<notin> set (map fst (fst acc))
               then AList.update u (newFlatItem fresh (fst ir) row u) (fst acc) else fst acc)"
      and img: "map_of g u = Some img"
      and acc': "acc' = addFlatTag row u img (g, snd acc)"
      by (auto simp: flatRow_def Let_def row_def split: if_splits jsval.splits option.splits)
    have okg: "\<forall>p\<in>set g. distinct (tags (snd p))"
      using assms(2) set_AList_update [of u "newFlatItem fresh (fst ir) row u" "fst acc"]
      by (auto simp: g newFlatItem_def)
    have "(u, img) \<in> set g" using img by (rule map_of_SomeD)
    with okg have okimg: "distinct (tags img)" by auto
    have "fst acc' = g \<or>
        (\<exists>tn. JStr tn \<notin> set (tags img) \<and>
              fst acc' = AList.update u (img\<lparr>tags := tags img @ [JStr tn]\<rparr>) g)"
      by (auto simp: acc' addFlatTag_def Let_def split: jsval.splits)
    then show ?thesis
    proof
      assume "fst acc' = g"
      with okg show ?thesis by simp
    next
      assume "\<exists>tn. JStr tn \<notin> set (tags img) \<and>
              fst acc' = AList.update u (img\<lparr>tags := tags img @ [JStr tn]\<rparr>) g"
      then obtain tn where tn: "JStr tn \<notin> set (tags img)"
        and a: "fst acc' = AList.update u (img\<lparr>tags := tags img @ [JStr tn]\<rparr>) g"
        by blast
      show ?thesis
        using okg okimg tn set_AList_update [of u "img\<lparr>tags := tags img @ [JStr tn]\<rparr>" g]
        unfolding a by auto
    qed
  qed
qed

lemma importFlat_distinct_tags:
  assumes "importFlat fresh rows = Inr (imgs, defs)"
  shows "list_all (\<lambda>it. distinct (tags it)) imgs"
proof -
  from assms obtain acc where
    acc: "forEach (flatRow fresh) (enumerate 0 rows) ([], []) = Inr acc"
    and imgs: "imgs = map snd (fst acc)"
    by (auto simp: importFlat_def split: sum.splits)
  have "\<forall>p\<in>set (fst acc). distinct (tags (snd p))"
  proof (rule forEach_invariant [OF acc, where P = "\<lambda>a. \<forall>p\<in>set (fst a). distinct (tags (snd p))"])
    show "\<forall>p\<in>set (fst ([], [])). distinct (tags (snd p))"
      by simp
  next
    fix x t t'
    assume "\<forall>p\<in>set (fst t). distinct (tags (snd p))" and "flatRow fresh x t = Inr t'"
    then show "\<forall>p\<in>set (fst t'). distinct (tags (snd p))"
      using flatRow_distinct by blast
  qed
  then show ?thesis by (simp add: imgs list_all_iff)
qed

lemma importFlat_distinct_tags_witness:
  "importFlat (\<lambda>i. ''F'')
     [JObj [(''image_url'', JStr ''http://x/a.jpg''), (''tag name'', JStr ''A'')],
      JObj [(''image_url'', JStr ''http://x/a.jpg''), (''tag name'', JStr ''A'')]]
   = Inr ([\<lparr>imgId = ''img-restored-F'', url = ''http://x/a.jpg'', filename = ''a.jpg'',
             tags = [JStr ''A''], hotelId = JUndefined, hotelName = JUndefined,
             originalImageId = JUndefined\<rparr>],
          [\<lparr>tag = JStr ''A'', title1 = JStr [], title2 = JStr [], content = JStr []\<rparr>]) \<and>
   list_all (\<lambda>it. distinct (tags it))
     [\<lparr>imgId = ''img-restored-F'', url = ''http://x/a.jpg'', filename = ''a.jpg'',
       tags = [JStr ''A''], hotelId = JUndefined, hotelName = JUndefined,
       originalImageId = JUndefined\<rparr>]"
proof -
  have g: "importFlat (\<lambda>i. ''F'')
     [JObj [(''image_url'', JStr ''http://x/a.jpg''), (''tag name'', JStr ''A'')],
      JObj [(''image_url'', JStr ''http://x/a.jpg''), (''tag name'', JStr ''A'')]]
   = Inr ([\<lparr>imgId = ''img-restored-F'', url = ''http://x/a.jpg'', filename = ''a.jpg'',
             tags = [JStr ''A''], hotelId = JUndefined, hotelName = JUndefined,
             originalImageId = JUndefined\<rparr>],
          [\<lparr>tag = JStr ''A'', title1 = JStr [], title2 = JStr [], content = JStr []\<rparr>])"
    by code_simp
  from importFlat_distinct_tags [OF g] g show ?thesis by simp
qed

lemma toggle_keeps_distinct:
  assumes "list_all (\<lambda>it. distinct (tags it)) imgs"
  shows "list_all (\<lambda>it. distinct (tags it)) (handleToggleTag imageId tg imgs)"
  using assms by (auto simp: handleToggleTag_def list_all_iff Let_def)

lemma toggle_keeps_distinct_witness:
  "list_all (\<lambda>it. distinct (tags it))
     (handleToggleTag ''i1'' ''B''
        [\<lparr>imgId = ''i1'', url = ''http://x/a.jpg'', filename = ''a.jpg'',
          tags = [JStr ''A''], hotelId = JUndefined, hotelName = JUndefined,
          originalImageId = JUndefined\<rparr>])"
proof -
  have "list_all (\<lambda>it. distinct (tags it))
        [\<lparr>imgId = ''i1'', url = ''http://x/a.jpg'', filename = ''a.jpg'',
          tags = [JStr ''A''], hotelId = JUndefined, hotelName = JUndefined,
          originalImageId = JUndefined\<rparr>]"
    by simp
  then show ?thesis by (rule toggle_keeps_distinct)
qed

lemma sheet_items_untagged:
  assumes "handleExcelUpload stamp rows = Inr items"
  shows "list_all (\<lambda>it. tags it = []) items"
proof -
  from assms obtain r rs where rows: "rows = r # rs"
    by (cases rows) (auto simp: handleExcelUpload_def)
  from sheet_roles [OF assms [unfolded rows]] show ?thesis
    by (auto simp: list_all_iff sheetItem_def Let_def)
qed

lemma sheet_items_untagged_witness:
  "handleExcelUpload (\<lambda>i. ''T'') [[(''url'', JStr ''http://x/a.jpg'')]]
     = Inr [\<lparr>imgId = ''img-xlsx-T-0'', url = ''http://x/a.jpg'', filename = ''a.jpg'',
              tags = [], hotelId = JUndefined, hotelName = JUndefined,
              originalImageId = JUndefined\<rparr>] \<and>
   list_all (\<lambda>it. tags it = [])
     [\<lparr>imgId = ''img-xlsx-T-0'', url = ''http://x/a.jpg'', filename = ''a.jpg'',
       tags = [], hotelId = JUndefined, hotelName = JUndefined,
       originalImageId = JUndefined\<rparr>]"
proof -
  have g: "handleExcelUpload (\<lambda>i. ''T'') [[(''url'', JStr ''http://x/a.jpg'')]]
     = Inr [\<lparr>imgId = ''img-xlsx-T-0'', url = ''http://x/a.jpg'', filename = ''a.jpg'',
              tags = [], hotelId = JUndefined, hotelName = JUndefined,
              originalImageId = JUndefined\<rparr>]"
    by code_simp
  from sheet_items_untagged [OF g] g show ?thesis by simp
qed

lemma findKey_pattern_order:
  assumes "set pats = set pats'"
  shows "findKey keys pats = findKey keys pats'"
  using assms by (simp add: findKey_def list_ex_iff)

lemma findKey_pattern_order_witness:
  "findKey [''my_link'', ''url''] urlPatterns = Some ''my_link'' \<and>
   findKey [''my_link'', ''url''] (rev urlPatterns) = Some ''my_link''"
proof -
  have g: "findKey [''my_link'', ''url''] urlPatterns = Some ''my_link''"
    by code_simp
  have "set urlPatterns = set (rev urlPatterns)" by simp
  from findKey_pattern_order [OF this, of "[''my_link'', ''url'']"] g show ?thesis by simp
qed

text \<open>
  Claim C7. The legacy branch copies the tag keys of a record without looking for
  repetitions: the file \<^verbatim>\<open>[{"image_url":"http://x/a.jpg","tags":["A","A"]}]\<close> is
  imported as one image whose tag list holds \<^verbatim>\<open>A\<close> twice.
\<close>

theorem legacy_import_keeps_duplicates:
  \<open>handleJsonSessionUpload json_parse (\<lambda>i. ''F'') (\<lambda>i. ''S'')
     ''[{"image_url":"http://x/a.jpg","tags":["A","A"]}]''
   = Inr ([\<lparr>imgId = ''img-restored-S-0'', url = ''http://x/a.jpg'', filename = ''a.jpg'',
             tags = [JStr ''A'', JStr ''A''], hotelId = JUndefined, hotelName = JUndefined,
             originalImageId = JUndefined\<rparr>],
          [\<lparr>tag = JStr ''A'', title1 = JStr [], title2 = JStr [], content = JUndefined\<rparr>])\<close>
  by code_simp

end
